theory Spec2Isabelle
  imports Main
begin

section \<open>JavaScript values, exceptions and the global state\<close>

text \<open>
  The plugin runtime passes values of TypeScript type \<open>any\<close> around: event payloads
  and plugin states. They are modelled by the JavaScript values a JSON text or an object
  literal can denote, with BigInt added as a value \<open>JSON.stringify\<close> throws on.
  Numbers are the integer-valued ones; objects are association lists.
\<close>

datatype jsValue =
    JUndefined
  | JNull
  | JBool bool
  | JNum int
  | JBigInt int
  | JStr string
  | JArr "jsValue list"
  | JObj "(string \<times> jsValue) list"

text \<open>
  A thrown value: an instance of \<open>Error\<close> carrying its message, or any other value
  (JavaScript lets a handler throw anything).
\<close>

datatype exn = Error string | NonError jsValue

text \<open>A line written by \<open>console.error(message, error)\<close>.\<close>

datatype logEntry = ConsoleError string exn

text \<open>
  \<open>localStorage\<close>: texts under keys, \<open>getItem\<close> giving \<open>null\<close> for a key that
  is not there. The store is taken to accept every write; a full or disabled store is
  not modelled.
\<close>

type_synonym storage = "string \<rightharpoonup> string"

text \<open>
  An event handler \<open>(data: any) => void\<close>, like a lifecycle hook, is opaque code. A
  function is known by its identity, a number (two closures with the same body are
  different functions in JavaScript, and \<open>indexOf\<close> compares by identity). What a
  function does when called is a program over the operations it can reach: it reads and
  writes \<open>localStorage\<close>, it subscribes, calls unsubscribe functions, publishes and
  clears on the singleton event bus, and it returns or throws. The bodies of all the
  functions of a run are given by a table from identities to programs.
\<close>

datatype token = Unsubscribe string nat

datatype prog =
    Done
  | Throw exn
  | Store "storage \<Rightarrow> storage" prog
  | Read "storage \<Rightarrow> prog"
  | Subscribe string nat prog
  | CallToken token prog
  | Publish string jsValue prog
  | Clear string prog
  | ClearAll prog

type_synonym program = "nat \<Rightarrow> jsValue \<Rightarrow> prog"

text \<open>
  The process-wide state. The singleton \<open>pluginEventBus\<close> holds a
  \<open>Map<string, EventHandler[]>\<close> (the order of its keys is never observed): \<open>events\<close>
  maps an event name to an array, \<open>arrays\<close> gives the current content of each array
  (arrays are objects, changed in place by \<open>push\<close> and \<open>splice\<close>), and
  \<open>nextArray\<close> is the array the next \<open>[]\<close> allocates. Then \<open>localStorage\<close>, the
  console, and a record of every call of a handler (which function, with which
  argument), kept so that "is invoked" can be stated.
\<close>

record world =
  events :: "string \<rightharpoonup> nat"
  arrays :: "nat \<Rightarrow> nat list"
  nextArray :: nat
  localStorage :: storage
  console :: "logEntry list"
  calls :: "(nat \<times> jsValue) list"

text \<open>
  A statement or expression of the program: it runs in a world, returns a value or throws,
  and leaves a world behind. What a throwing computation did before the throw stays done.
\<close>

type_synonym 'a js = "world \<Rightarrow> (exn + 'a) \<times> world"

definition returns :: "'a \<Rightarrow> 'a js" where
  "returns x = (\<lambda>w. (Inr x, w))"

definition throw :: "exn \<Rightarrow> 'a js" where
  "throw e = (\<lambda>w. (Inl e, w))"

definition andThen :: "'a js \<Rightarrow> ('a \<Rightarrow> 'b js) \<Rightarrow> 'b js" where
  "andThen m f = (\<lambda>w. case m w of (Inl e, w') \<Rightarrow> (Inl e, w') | (Inr x, w') \<Rightarrow> f x w')"

text \<open>\<open>try { body } catch (error) { handle(error) }\<close>\<close>

definition tryCatch :: "'a js \<Rightarrow> (exn \<Rightarrow> 'a js) \<Rightarrow> 'a js" where
  "tryCatch body handle = (\<lambda>w. case body w of (Inl e, w') \<Rightarrow> handle e w' | (Inr x, w') \<Rightarrow> (Inr x, w'))"

text \<open>
  \<open>Array.prototype.forEach\<close> over an array that no other code holds (the result of
  \<open>filter\<close> in \<open>loadPlugins\<close>): the callback runs on each element in index
  order, and a throw ends the loop.
\<close>

fun forEach :: "'a list \<Rightarrow> ('a \<Rightarrow> unit js) \<Rightarrow> unit js" where
  "forEach [] f = returns ()"
| "forEach (x # xs) f = andThen (f x) (\<lambda>_. forEach xs f)"

definition consoleError :: "string \<Rightarrow> exn \<Rightarrow> unit js" where
  "consoleError msg e = (\<lambda>w. (Inr (), w\<lparr>console := console w @ [ConsoleError msg e]\<rparr>))"

definition getItem :: "string \<Rightarrow> string option js" where
  "getItem key = (\<lambda>w. (Inr (localStorage w key), w))"

definition setItem :: "string \<Rightarrow> string \<Rightarrow> unit js" where
  "setItem key v = (\<lambda>w. (Inr (), w\<lparr>localStorage := (localStorage w)(key \<mapsto> v)\<rparr>))"

definition removeItem :: "string \<Rightarrow> unit js" where
  "removeItem key = (\<lambda>w. (Inr (), w\<lparr>localStorage := (localStorage w)(key := None)\<rparr>))"

section \<open>Event bus\<close>

text \<open>
  \<open>Array.prototype.indexOf\<close>: the first index holding the element, \<open>-1\<close> when there
  is none; \<open>splice(index, 1)\<close> removes the element at that index.
\<close>

fun indexOf :: "'a list \<Rightarrow> 'a \<Rightarrow> int" where
  "indexOf [] x = -1"
| "indexOf (y # ys) x = (if y = x then 0 else (let i = indexOf ys x in if i > -1 then i + 1 else -1))"

definition splice1 :: "int \<Rightarrow> 'a list \<Rightarrow> 'a list" where
  "splice1 i xs = take (nat i) xs @ drop (nat i + 1) xs"

text \<open>
  The unsubscribe function returned by \<open>subscribe\<close> is a closure over the event name
  and the handler; calling it is \<open>unsubscribe\<close>. It looks the event's array up
  again and splices that array in place.
\<close>

definition subscribe :: "string \<Rightarrow> nat \<Rightarrow> token js" where
  "subscribe event h = (\<lambda>w.
     let w1 = (if events w event = None
               then w\<lparr>events := (events w)(event \<mapsto> nextArray w),
                      arrays := (arrays w)(nextArray w := []),
                      nextArray := Suc (nextArray w)\<rparr>
               else w);
         w2 = (case events w1 event of
                 None \<Rightarrow> w1
               | Some a \<Rightarrow> w1\<lparr>arrays := (arrays w1)(a := arrays w1 a @ [h])\<rparr>)
     in (Inr (Unsubscribe event h), w2))"

fun unsubscribe :: "token \<Rightarrow> unit js" where
  "unsubscribe (Unsubscribe event h) = (\<lambda>w.
     case events w event of
       None \<Rightarrow> (Inr (), w)
     | Some handlers \<Rightarrow>
         (let index = indexOf (arrays w handlers) h
          in if index > -1
             then (Inr (), w\<lparr>arrays := (arrays w)(handlers := splice1 index (arrays w handlers))\<rparr>)
             else (Inr (), w)))"

definition clear :: "string \<Rightarrow> unit js" where
  "clear event = (\<lambda>w. (Inr (), w\<lparr>events := (events w)(event := None)\<rparr>))"

definition clearAll :: "unit js" where
  "clearAll = (\<lambda>w. (Inr (), w\<lparr>events := Map.empty\<rparr>))"

text \<open>
  Running the body of a function. \<open>nested\<close> is what a call of \<open>publish\<close> from
  inside the body does.
\<close>

primrec exec :: "(string \<Rightarrow> jsValue \<Rightarrow> unit js) \<Rightarrow> prog \<Rightarrow> unit js" where
  "exec nested Done = returns ()"
| "exec nested (Throw e) = throw e"
| "exec nested (Store f p) =
     andThen (\<lambda>w. (Inr (), w\<lparr>localStorage := f (localStorage w)\<rparr>)) (\<lambda>_. exec nested p)"
| "exec nested (Read k) = (\<lambda>w. exec nested (k (localStorage w)) w)"
| "exec nested (Subscribe event h p) = andThen (subscribe event h) (\<lambda>_. exec nested p)"
| "exec nested (CallToken t p) = andThen (unsubscribe t) (\<lambda>_. exec nested p)"
| "exec nested (Publish event data p) = andThen (nested event data) (\<lambda>_. exec nested p)"
| "exec nested (Clear event p) = andThen (clear event) (\<lambda>_. exec nested p)"
| "exec nested (ClearAll p) = andThen clearAll (\<lambda>_. exec nested p)"

text \<open>Calling a handler: the call is recorded, then its body runs.\<close>

definition callHandler :: "program \<Rightarrow> (string \<Rightarrow> jsValue \<Rightarrow> unit js) \<Rightarrow> nat \<Rightarrow> jsValue \<Rightarrow> unit js" where
  "callHandler code nested h data =
     (\<lambda>w. exec nested (code h data) (w\<lparr>calls := calls w @ [(h, data)]\<rparr>))"

text \<open>The callback \<open>publish\<close> hands to \<open>forEach\<close>: the call of one handler inside \<open>try\<close>.\<close>

definition deliver :: "program \<Rightarrow> (string \<Rightarrow> jsValue \<Rightarrow> unit js) \<Rightarrow> string \<Rightarrow> jsValue \<Rightarrow> nat \<Rightarrow> unit js" where
  "deliver code nested event data h =
     tryCatch (callHandler code nested h data)
       (\<lambda>error. consoleError (''Error in event handler for '' @ event @ '':'') error)"

text \<open>
  \<open>handlers.forEach(callback)\<close> on an array that the callback may change while the
  loop runs: the length is read once, the indices below it are visited in order, and at
  each index the callback gets the element that is there now; an index the array no
  longer has is passed over. \<open>forEachLive f a k n\<close> visits the \<open>n\<close> indices from
  \<open>k\<close> on of the array \<open>a\<close>.
\<close>

fun forEachLive :: "(nat \<Rightarrow> unit js) \<Rightarrow> nat \<Rightarrow> nat \<Rightarrow> nat \<Rightarrow> unit js" where
  "forEachLive f a k 0 = returns ()"
| "forEachLive f a k (Suc n) = (\<lambda>w.
     if k < length (arrays w a)
     then andThen (f (arrays w a ! k)) (\<lambda>_. forEachLive f a (Suc k) n) w
     else forEachLive f a (Suc k) n w)"

definition publishWith :: "program \<Rightarrow> (string \<Rightarrow> jsValue \<Rightarrow> unit js) \<Rightarrow> string \<Rightarrow> jsValue \<Rightarrow> unit js" where
  "publishWith code nested event data = (\<lambda>w.
     case events w event of
       None \<Rightarrow> (Inr (), w)
     | Some handlers \<Rightarrow>
         forEachLive (deliver code nested event data) handlers 0 (length (arrays w handlers)) w)"

text \<open>
  Calls nest only as deep as the engine's stack allows; beyond that the call throws a
  \<open>RangeError\<close>. \<open>publish code d\<close> is \<open>publish\<close> called with room for \<open>d\<close>
  further \<open>publish\<close> calls nested inside it.
\<close>

definition stackOverflow :: exn where
  "stackOverflow = Error ''Maximum call stack size exceeded''"

primrec publish :: "program \<Rightarrow> nat \<Rightarrow> string \<Rightarrow> jsValue \<Rightarrow> unit js" where
  "publish code 0 = publishWith code (\<lambda>event data. throw stackOverflow)"
| "publish code (Suc d) = publishWith code (publish code d)"

section \<open>Plugin descriptors\<close>

text \<open>
  What React draws: text, or a \<open>div\<close> with its \<open>key\<close>, its \<open>className\<close> and its
  children.
\<close>

datatype vnode = Text string | Div "string option" string "vnode list"

text \<open>
  A React component is opaque code as well. It is modelled by the outcome of mounting it
  with the props it is given: the element it renders or the exception it throws.
\<close>

type_synonym component = "(string \<times> jsValue) list \<Rightarrow> exn + vnode"

record pluginConfig =
  enabled :: bool
  position :: "string option"
  settings :: "(string \<times> jsValue) list option"

text \<open>
  A lifecycle hook \<open>() => void\<close> or \<open>(prevProps: any) => void\<close> is a function like an
  event handler, given by its identity.
\<close>

record pluginLifecycle =
  onMount :: "nat option"
  onUnmount :: "nat option"
  onUpdate :: "nat option"

text \<open>
  The interface \<open>Plugin\<close>. TypeScript's types are erased at run time, so \<open>section\<close>
  is whatever string the caller put there; \<open>register\<close> checks it. The fields
  \<open>id\<close>, \<open>section\<close> and \<open>order\<close> carry a prime, their names being taken.
\<close>

record plugin =
  id' :: string
  name :: string
  description :: "string option"
  section' :: string
  component :: component
  config :: "pluginConfig option"
  lifecycle :: "pluginLifecycle option"
  order' :: "int option"
  dependencies :: "string list option"

section \<open>Registry\<close>

text \<open>
  A JavaScript \<open>Map\<close> iterates in insertion order: \<open>set\<close> on a key that is present
  replaces the value where it stands, \<open>set\<close> on a new key appends, \<open>delete\<close> removes
  the entry.
\<close>

fun Map_set :: "'k \<Rightarrow> 'v \<Rightarrow> ('k \<times> 'v) list \<Rightarrow> ('k \<times> 'v) list" where
  "Map_set k v [] = [(k, v)]"
| "Map_set k v ((k', v') # m) = (if k' = k then (k, v) # m else (k', v') # Map_set k v m)"

definition Map_delete :: "'k \<Rightarrow> ('k \<times> 'v) list \<Rightarrow> ('k \<times> 'v) list" where
  "Map_delete k m = filter (\<lambda>kv. fst kv \<noteq> k) m"

definition Map_get :: "'k \<Rightarrow> ('k \<times> 'v) list \<Rightarrow> 'v option" where
  "Map_get k m = map_of m k"

definition Map_values :: "('k \<times> 'v) list \<Rightarrow> 'v list" where
  "Map_values m = map snd m"

record registry =
  plugins :: "(string \<times> plugin) list"

definition sections :: "string list" where
  "sections = [''header'', ''sidebar'', ''content'', ''footer'']"

definition emptyRegistry :: registry where
  "emptyRegistry = \<lparr>plugins = []\<rparr>"

definition register :: "plugin \<Rightarrow> registry \<Rightarrow> exn + registry" where
  "register p r =
     (if section' p \<notin> set sections
      then Inl (Error (''Invalid section: '' @ section' p))
      else Inr (r\<lparr>plugins := Map_set (id' p) p (plugins r)\<rparr>))"

definition unregister :: "string \<Rightarrow> registry \<Rightarrow> registry" where
  "unregister pluginId r = r\<lparr>plugins := Map_delete pluginId (plugins r)\<rparr>"

definition getPlugin :: "string \<Rightarrow> registry \<Rightarrow> plugin option" where
  "getPlugin pluginId r = Map_get pluginId (plugins r)"

definition getPluginsBySection :: "string \<Rightarrow> registry \<Rightarrow> plugin list" where
  "getPluginsBySection sec r = filter (\<lambda>p. section' p = sec) (Map_values (plugins r))"

text \<open>A run of \<open>register\<close> calls, as in the registration entry point; the first throw ends it.\<close>

fun registerAll :: "plugin list \<Rightarrow> registry \<Rightarrow> exn + registry" where
  "registerAll [] r = Inr r"
| "registerAll (p # ps) r = (case register p r of Inl e \<Rightarrow> Inl e | Inr r' \<Rightarrow> registerAll ps r')"

section \<open>State store\<close>

text \<open>
  \<open>JSON.stringify\<close> and \<open>JSON.parse\<close> belong to the platform, not to the repository;
  the program is parameterised by them. \<open>stringify\<close> throws (a cyclic object, a BigInt),
  returns \<open>undefined\<close> (\<open>None\<close>: for \<open>undefined\<close> or a function) or returns a text;
  \<open>parse\<close> throws a \<open>SyntaxError\<close> or returns the value.
\<close>

record json =
  stringify :: "jsValue \<Rightarrow> exn + string option"
  parse :: "string \<Rightarrow> exn + jsValue"

text \<open>\<open>setItem\<close> stores the string its argument converts to.\<close>

definition storedText :: "string option \<Rightarrow> string" where
  "storedText t = (case t of None \<Rightarrow> ''undefined'' | Some s \<Rightarrow> s)"

text \<open>A \<open>string | null\<close> in a condition: \<open>null\<close> and the empty string are falsy.\<close>

definition truthy :: "string option \<Rightarrow> bool" where
  "truthy t = (case t of None \<Rightarrow> False | Some s \<Rightarrow> s \<noteq> [])"

definition jsonStringify :: "json \<Rightarrow> jsValue \<Rightarrow> string option js" where
  "jsonStringify J v = (\<lambda>w. (stringify J v, w))"

definition jsonParse :: "json \<Rightarrow> string \<Rightarrow> jsValue js" where
  "jsonParse J t = (\<lambda>w. (parse J t, w))"

text \<open>The template literal \<open>plugin_${pluginId}_state\<close> of the three methods.\<close>

definition stateKey :: "string \<Rightarrow> string" where
  "stateKey pluginId = ''plugin_'' @ pluginId @ ''_state''"

definition saveState :: "json \<Rightarrow> string \<Rightarrow> jsValue \<Rightarrow> unit js" where
  "saveState J pluginId state =
     tryCatch
       (andThen (jsonStringify J state) (\<lambda>t. setItem (stateKey pluginId) (storedText t)))
       (\<lambda>error. consoleError (''Failed to save state for plugin '' @ pluginId @ '':'') error)"

definition loadState :: "json \<Rightarrow> string \<Rightarrow> jsValue js" where
  "loadState J pluginId =
     tryCatch
       (andThen (getItem (stateKey pluginId)) (\<lambda>state.
          if truthy state then jsonParse J (the state) else returns JNull))
       (\<lambda>error. andThen
          (consoleError (''Failed to load state for plugin '' @ pluginId @ '':'') error)
          (\<lambda>_. returns JNull))"

definition clearState :: "string \<Rightarrow> unit js" where
  "clearState pluginId = removeItem (stateKey pluginId)"

section \<open>Lifecycle manager\<close>

text \<open>
  String conversion of a value inside a template literal: decimal digits for a number,
  the elements joined by commas for an array (\<open>null\<close> and \<open>undefined\<close> elements
  giving the empty string), \<open>[object Object]\<close> for a plain object.
\<close>

definition digitChar :: "nat \<Rightarrow> char" where
  "digitChar d = ''0123456789'' ! d"

fun natToString :: "nat \<Rightarrow> string" where
  "natToString n = (if n < 10 then [digitChar n] else natToString (n div 10) @ [digitChar (n mod 10)])"

definition intToString :: "int \<Rightarrow> string" where
  "intToString i = (if i < 0 then CHR ''-'' # natToString (nat (- i)) else natToString (nat i))"

fun joinComma :: "string list \<Rightarrow> string" where
  "joinComma [] = []"
| "joinComma [s] = s"
| "joinComma (s # t # ts) = s @ '','' @ joinComma (t # ts)"

fun toString :: "jsValue \<Rightarrow> string" where
  "toString JUndefined = ''undefined''"
| "toString JNull = ''null''"
| "toString (JBool b) = (if b then ''true'' else ''false'')"
| "toString (JNum n) = intToString n"
| "toString (JBigInt n) = intToString n"
| "toString (JStr s) = s"
| "toString (JArr xs) =
     joinComma (map (\<lambda>x. if x = JUndefined \<or> x = JNull then [] else toString x) xs)"
| "toString (JObj kvs) = ''[object Object]''"

text \<open>
  Reading a property while destructuring a parameter: of an object, its value or
  \<open>undefined\<close>; of any other value but \<open>null\<close> and \<open>undefined\<close>, \<open>undefined\<close>
  (neither \<open>pluginId\<close> nor \<open>state\<close> is a property of a primitive or an array).
\<close>

definition getProp :: "jsValue \<Rightarrow> string \<Rightarrow> jsValue" where
  "getProp v k = (case v of
       JObj kvs \<Rightarrow> (case map_of kvs k of None \<Rightarrow> JUndefined | Some x \<Rightarrow> x)
     | _ \<Rightarrow> JUndefined)"

text \<open>The template literal \<open>plugin_state_${...}\<close> of the manager.\<close>

definition managerKey :: "string \<Rightarrow> string" where
  "managerKey pluginId = ''plugin_state_'' @ pluginId"

text \<open>
  The handler the manager subscribes to \<open>plugin:stateChange\<close>:
  \<open>({ pluginId, state }) => { localStorage.setItem(..., JSON.stringify(state)) }\<close>.
  Destructuring \<open>null\<close> or \<open>undefined\<close> throws a \<open>TypeError\<close>.
\<close>

definition onStateChange :: "json \<Rightarrow> jsValue \<Rightarrow> storage \<Rightarrow> exn option \<times> storage" where
  "onStateChange J data s =
     (if data = JUndefined \<or> data = JNull
      then (Some (Error ''Cannot destructure property pluginId''), s)
      else
        let pluginId = getProp data ''pluginId'';
            state = getProp data ''state''
        in case stringify J state of
             Inl e \<Rightarrow> (Some e, s)
           | Inr t \<Rightarrow> (None, s(managerKey (toString pluginId) \<mapsto> storedText t)))"

text \<open>
  A function that only works on \<open>localStorage\<close>, as a program: it reads the store,
  leaves the new store behind, and returns or throws.
\<close>

definition fromStore :: "(storage \<Rightarrow> exn option \<times> storage) \<Rightarrow> prog" where
  "fromStore f =
     Read (\<lambda>s. Store (\<lambda>_. snd (f s)) (case fst (f s) of None \<Rightarrow> Done | Some e \<Rightarrow> Throw e))"

text \<open>The body of the closure the manager subscribes.\<close>

definition stateChangeHandler :: "json \<Rightarrow> jsValue \<Rightarrow> prog" where
  "stateChangeHandler J data = fromStore (onStateChange J data)"

text \<open>The component's two \<open>useState\<close> cells.\<close>

record managerState =
  plugins' :: "plugin list"
  error' :: "string option"

definition initialManagerState :: managerState where
  "initialManagerState = \<lparr>plugins' = [], error' = None\<rparr>"

text \<open>The body of the \<open>forEach\<close> in \<open>loadPlugins\<close>.\<close>

definition restoreState :: "program \<Rightarrow> nat \<Rightarrow> json \<Rightarrow> plugin \<Rightarrow> unit js" where
  "restoreState code d J p =
     andThen (getItem (managerKey (id' p))) (\<lambda>savedState.
       if truthy savedState
       then andThen (jsonParse J (the savedState)) (\<lambda>v. publish code d (id' p @ '':restore'') v)
       else returns ())"

definition loadPlugins :: "program \<Rightarrow> nat \<Rightarrow> json \<Rightarrow> string \<Rightarrow> registry \<Rightarrow> managerState \<Rightarrow> world \<Rightarrow> managerState \<times> world" where
  "loadPlugins code d J sec r st w =
     (let sectionPlugins = getPluginsBySection sec r;
          st1 = st\<lparr>plugins' := sectionPlugins\<rparr>
      in case forEach sectionPlugins (restoreState code d J) w of
           (Inr _, w') \<Rightarrow> (st1, w')
         | (Inl err, w') \<Rightarrow>
             (st1\<lparr>error' := Some (case err of Error message \<Rightarrow> message
                                            | NonError _ \<Rightarrow> ''Failed to load plugins'')\<rparr>, w'))"

text \<open>
  The effect run when the manager mounts: \<open>loadPlugins()\<close>, then the subscription to
  \<open>plugin:stateChange\<close>. Each run allocates a new handler closure; \<open>closureId\<close> is its
  identity, and its body in the table of functions is \<open>stateChangeHandler\<close>. The token
  returned is what the effect's cleanup calls.
\<close>

definition managerEffect :: "program \<Rightarrow> nat \<Rightarrow> json \<Rightarrow> string \<Rightarrow> registry \<Rightarrow> nat \<Rightarrow> managerState \<Rightarrow> (managerState \<times> token) js" where
  "managerEffect code d J sec r closureId st = (\<lambda>w.
     case loadPlugins code d J sec r st w of
       (st', w1) \<Rightarrow>
         andThen (subscribe ''plugin:stateChange'' closureId)
           (\<lambda>unsub. returns (st', unsub)) w1)"

subsection \<open>Error boundary\<close>











section \<open>An instance of the platform's JSON functions\<close>

text \<open>
  \<open>atomJSON\<close> agrees with \<open>JSON.stringify\<close> and \<open>JSON.parse\<close> on the atoms
  \<open>null\<close>, \<open>true\<close>, \<open>false\<close> and the integers, on \<open>undefined\<close> (no text) and on
  BigInt (a \<open>TypeError\<close>). Strings, arrays and objects are outside its fragment and
  are reported as errors; it serves to run the program on concrete inputs.
\<close>

definition isDecimal :: "string \<Rightarrow> bool" where
  "isDecimal t =
     (case t of
        [] \<Rightarrow> False
      | c # cs \<Rightarrow> list_all (\<lambda>d. d \<in> set ''0123456789'') t \<and> (if c = CHR ''0'' then cs = [] else True))"

definition digitValue :: "char \<Rightarrow> nat" where
  "digitValue c = of_char c - 48"

definition parseDecimal :: "string \<Rightarrow> nat" where
  "parseDecimal t = foldl (\<lambda>n c. 10 * n + digitValue c) 0 t"

definition atomStringify :: "jsValue \<Rightarrow> exn + string option" where
  "atomStringify v = (case v of
       JUndefined \<Rightarrow> Inr None
     | JNull \<Rightarrow> Inr (Some ''null'')
     | JBool b \<Rightarrow> Inr (Some (if b then ''true'' else ''false''))
     | JNum n \<Rightarrow> Inr (Some (intToString n))
     | JBigInt n \<Rightarrow> Inl (Error ''Do not know how to serialize a BigInt'')
     | _ \<Rightarrow> Inl (Error ''not an atom''))"

definition atomParse :: "string \<Rightarrow> exn + jsValue" where
  "atomParse t =
     (if t = ''null'' then Inr JNull
      else if t = ''true'' then Inr (JBool True)
      else if t = ''false'' then Inr (JBool False)
      else if isDecimal t then Inr (JNum (int (parseDecimal t)))
      else (case t of
              c # cs \<Rightarrow> (if c = CHR ''-'' \<and> isDecimal cs
                         then Inr (JNum (- int (parseDecimal cs)))
                         else Inl (Error ''Unexpected token''))
            | [] \<Rightarrow> Inl (Error ''Unexpected end of JSON input'')))"

definition atomJSON :: json where
  "atomJSON = \<lparr>stringify = atomStringify, parse = atomParse\<rparr>"

text \<open>A world in which nothing has happened yet.\<close>

definition emptyWorld :: world where
  "emptyWorld = \<lparr>events = Map.empty, arrays = (\<lambda>a. []), nextArray = 0,
                 localStorage = Map.empty, console = [], calls = []\<rparr>"

section \<open>Notions used in the statements\<close>


text \<open>The invocations of one handler so far, oldest first.\<close>

definition callsOf :: "nat \<Rightarrow> world \<Rightarrow> (nat \<times> jsValue) list" where
  "callsOf h w = filter (\<lambda>c. fst c = h) (calls w)"




text \<open>
  A state value survives the store when \<open>JSON.stringify\<close> gives a text for it (never
  the empty one) that \<open>JSON.parse\<close> reads back as the same value.
\<close>

definition serializable :: "json \<Rightarrow> jsValue \<Rightarrow> bool" where
  "serializable J s =
     (case stringify J s of
        Inr (Some t) \<Rightarrow> t \<noteq> [] \<and> parse J t = Inr s
      | _ \<Rightarrow> False)"


section \<open>Concrete inputs\<close>

text \<open>
  The functions of the examples, by identity: the closure a manager subscribes, three
  plain handlers of which the second always throws, a handler that unsubscribes itself
  from \<open>counter:reset\<close> and throws, one that unsubscribes itself and returns, and a
  mount hook that leaves a mark in the store.
\<close>

definition managerClosure :: nat where "managerClosure = 0"
definition okHandler :: nat where "okHandler = 1"
definition failingHandler :: nat where "failingHandler = 2"
definition lastHandler :: nat where "lastHandler = 3"
definition onceFailingHandler :: nat where "onceFailingHandler = 4"
definition onceHandler :: nat where "onceHandler = 5"
definition mountHook :: nat where "mountHook = 9"

definition exampleCode :: program where
  "exampleCode h data =
     (if h = 0 then stateChangeHandler atomJSON data
      else if h = 2 then Throw (Error ''boom'')
      else if h = 4 then CallToken (Unsubscribe ''counter:reset'' 4) (Throw (Error ''boom''))
      else if h = 5 then CallToken (Unsubscribe ''counter:reset'' 5) Done
      else if h = 9 then Store (\<lambda>s. s(''mounted'' \<mapsto> ''yes'')) Done
      else Done)"

definition okComponent :: component where
  "okComponent = (\<lambda>props. Inr (Text ''ready''))"


definition mkPlugin :: "string \<Rightarrow> string \<Rightarrow> string \<Rightarrow> component \<Rightarrow> int option \<Rightarrow> plugin" where
  "mkPlugin i n sec c ord =
     \<lparr>id' = i, name = n, description = None, section' = sec, component = c,
      config = None, lifecycle = None, order' = ord, dependencies = None\<rparr>"

definition pluginA :: plugin where
  "pluginA = mkPlugin ''A'' ''Plugin A'' ''content'' okComponent (Some 2)"

definition pluginB :: plugin where
  "pluginB = mkPlugin ''B'' ''Plugin B'' ''content'' okComponent (Some 1)"

definition pluginA2 :: plugin where
  "pluginA2 = mkPlugin ''A'' ''Another A'' ''footer'' okComponent None"

definition pluginBad :: plugin where
  "pluginBad = mkPlugin ''A'' ''Misplaced A'' ''toolbar'' okComponent None"



definition pluginP :: plugin where
  "pluginP = (mkPlugin ''P'' ''Plugin P'' ''content'' okComponent None)
     \<lparr>lifecycle := Some \<lparr>onMount = Some mountHook, onUnmount = None, onUpdate = None\<rparr>\<rparr>"

text \<open>A zone with one plugin that supplies \<open>onMount\<close>, a saved state and a restore handler.\<close>

definition registryP :: registry where
  "registryP = \<lparr>plugins = [(''P'', pluginP)]\<rparr>"

definition worldP :: world where
  "worldP = \<lparr>events = [''P:restore'' \<mapsto> 0], arrays = (\<lambda>a. [])(0 := [okHandler]), nextArray = 1,
             localStorage = [''plugin_state_P'' \<mapsto> ''5''],
             console = [], calls = []\<rparr>"



text \<open>The payload a counter plugin with state 5 publishes on \<open>plugin:stateChange\<close>.\<close>

definition counterChange :: jsValue where
  "counterChange = JObj [(''pluginId'', JStr ''counter''), (''state'', JNum 5)]"

text \<open>The world once a manager has mounted over an empty registry and that payload was published.\<close>

definition worldAfterChange :: world where
  "worldAfterChange =
     snd (publish exampleCode 0 ''plugin:stateChange'' counterChange
            (snd (managerEffect exampleCode 0 atomJSON ''content'' emptyRegistry managerClosure
                    initialManagerState emptyWorld)))"





section \<open>Event bus: subscription and delivery\<close>

lemma indexOf_ge: "indexOf xs x \<ge> -1"
  by (induction xs) (auto simp: Let_def)

lemma indexOf_absent: "indexOf xs x > -1 \<longleftrightarrow> x \<in> set xs"
  by (induction xs) (auto simp: Let_def)

lemma splice1_indexOf: "x \<in> set xs \<Longrightarrow> splice1 (indexOf xs x) xs = remove1 x xs"
proof (induction xs)
  case Nil then show ?case by simp
next
  case (Cons y ys)
  show ?case
  proof (cases "y = x")
    case True then show ?thesis by (simp add: splice1_def)
  next
    case False
    with Cons.prems have in_ys: "x \<in> set ys" by simp
    then have pos: "indexOf ys x > -1" by (simp add: indexOf_absent)
    have "splice1 (indexOf ys x + 1) (y # ys) = y # splice1 (indexOf ys x) ys"
      using pos by (simp add: splice1_def nat_add_distrib take_Cons' drop_Cons')
    with False pos Cons.IH[OF in_ys] show ?thesis by (simp add: Let_def)
  qed
qed

lemma unsubscribe_eq:
  "unsubscribe (Unsubscribe e h) w =
     (Inr (), case events w e of
                None \<Rightarrow> w
              | Some a \<Rightarrow> if h \<in> set (arrays w a)
                          then w\<lparr>arrays := (arrays w)(a := remove1 h (arrays w a))\<rparr> else w)"
  by (auto simp: Let_def indexOf_absent splice1_indexOf split: option.splits)

declare unsubscribe.simps [simp del]





lemma unsubscribe_calls: "calls (snd (unsubscribe t w)) = calls w"
  by (cases t) (auto simp: unsubscribe_eq split: option.splits)

lemma subscribe_calls: "calls (snd (subscribe e h w)) = calls w"
  by (auto simp: subscribe_def Let_def split: option.splits)














text \<open>The concrete worlds, written out.\<close>

lemma exampleCode_simps:
  "exampleCode okHandler d = Done"
  "exampleCode lastHandler d = Done"
  "exampleCode failingHandler d = Throw (Error ''boom'')"
  "exampleCode onceFailingHandler d = CallToken (Unsubscribe ''counter:reset'' onceFailingHandler) (Throw (Error ''boom''))"
  "exampleCode onceHandler d = CallToken (Unsubscribe ''counter:reset'' onceHandler) Done"
  "exampleCode managerClosure d = stateChangeHandler atomJSON d"
  "exampleCode mountHook d = Store (\<lambda>s. s(''mounted'' \<mapsto> ''yes'')) Done"
  by (simp_all add: exampleCode_def okHandler_def lastHandler_def failingHandler_def
        onceFailingHandler_def onceHandler_def managerClosure_def mountHook_def)






lemmas handler_ids = okHandler_def lastHandler_def failingHandler_def
  onceFailingHandler_def onceHandler_def managerClosure_def mountHook_def








section \<open>Registry: registration and section queries\<close>

lemma map_of_Map_set: "map_of (Map_set k v m) = (map_of m)(k \<mapsto> v)"
  by (induction m) (auto simp: fun_eq_iff)

lemma keys_Map_set_present: "k \<in> set (map fst m) \<Longrightarrow> map fst (Map_set k v m) = map fst m"
  by (induction m) force+

lemma getPlugin_present: "getPlugin k r = Some q \<Longrightarrow> k \<in> set (map fst (plugins r))"
  by (auto simp: getPlugin_def Map_get_def dest!: map_of_SomeD intro: rev_image_eqI)

text \<open>
  Claim C1, as the code has it. \<open>register\<close> has no duplicate check. For a descriptor
  whose id is already present: when its section is one of the four, \<open>register\<close>
  succeeds and the new descriptor replaces the stored one, in the same place of the
  iteration order, every other entry staying as it was; when its section is not one of
  the four, \<open>register\<close> throws the invalid-section error and the store is not touched.
\<close>

theorem register_existing_id_replaces:
  assumes "getPlugin (id' p) r = Some q"
  shows "if section' p \<in> set sections
         then \<exists>r'. register p r = Inr r'
                \<and> getPlugin (id' p) r' = Some p
                \<and> (\<forall>k. k \<noteq> id' p \<longrightarrow> getPlugin k r' = getPlugin k r)
                \<and> map fst (plugins r') = map fst (plugins r)
         else register p r = Inl (Error (''Invalid section: '' @ section' p))"
  using assms getPlugin_present [OF assms]
  by (auto simp: register_def getPlugin_def Map_get_def map_of_Map_set keys_Map_set_present)

theorem register_existing_id_replaces_witness:
  "getPlugin (id' pluginA2) \<lparr>plugins = [(''A'', pluginA)]\<rparr> = Some pluginA
   \<and> section' pluginA2 \<in> set sections
   \<and> register pluginA2 \<lparr>plugins = [(''A'', pluginA)]\<rparr> = Inr \<lparr>plugins = [(''A'', pluginA2)]\<rparr>
   \<and> getPlugin (id' pluginA2) \<lparr>plugins = [(''A'', pluginA2)]\<rparr> = Some pluginA2
   \<and> getPlugin (id' pluginBad) \<lparr>plugins = [(''A'', pluginA)]\<rparr> = Some pluginA
   \<and> section' pluginBad \<notin> set sections
   \<and> register pluginBad \<lparr>plugins = [(''A'', pluginA)]\<rparr> = Inl (Error ''Invalid section: toolbar'')"
proof -
  have a: "getPlugin (id' pluginA2) \<lparr>plugins = [(''A'', pluginA)]\<rparr> = Some pluginA"
    by (simp add: getPlugin_def Map_get_def pluginA2_def mkPlugin_def)
  have b: "getPlugin (id' pluginBad) \<lparr>plugins = [(''A'', pluginA)]\<rparr> = Some pluginA"
    by (simp add: getPlugin_def Map_get_def pluginBad_def mkPlugin_def)
  have va: "section' pluginA2 \<in> set sections" by (simp add: pluginA2_def mkPlugin_def sections_def)
  have vb: "section' pluginBad \<notin> set sections" by (simp add: pluginBad_def mkPlugin_def sections_def)
  have sb: "section' pluginBad = ''toolbar''" by (simp add: pluginBad_def mkPlugin_def)
  from register_existing_id_replaces [OF a] va
  have "\<exists>r'. register pluginA2 \<lparr>plugins = [(''A'', pluginA)]\<rparr> = Inr r' \<and> getPlugin (id' pluginA2) r' = Some pluginA2"
    by auto
  moreover have "register pluginA2 \<lparr>plugins = [(''A'', pluginA)]\<rparr> = Inr \<lparr>plugins = [(''A'', pluginA2)]\<rparr>"
    by (simp add: register_def va) (simp add: pluginA2_def mkPlugin_def)
  moreover from register_existing_id_replaces [OF b] vb sb
  have "register pluginBad \<lparr>plugins = [(''A'', pluginA)]\<rparr> = Inl (Error ''Invalid section: toolbar'')"
    by simp
  ultimately show ?thesis using a b va vb by auto
qed

text \<open>
  The claim as stated fails: registering a second descriptor under the id \<open>A\<close> is not
  an error, and afterwards the first descriptor is gone.
\<close>

theorem register_duplicate_counterexample:
  "register pluginA emptyRegistry = Inr \<lparr>plugins = [(''A'', pluginA)]\<rparr>
   \<and> register pluginA2 \<lparr>plugins = [(''A'', pluginA)]\<rparr> = Inr \<lparr>plugins = [(''A'', pluginA2)]\<rparr>
   \<and> getPlugin ''A'' \<lparr>plugins = [(''A'', pluginA2)]\<rparr> = Some pluginA2
   \<and> pluginA2 \<noteq> pluginA"
  by (simp add: register_def emptyRegistry_def getPlugin_def Map_get_def pluginA_def pluginA2_def mkPlugin_def sections_def)

text \<open>
  Claim C3 says that \<open>getPluginsBySection\<close> orders a section's descriptors by their
  \<open>order\<close> field, and the \<open>Plugin\<close> interface documents that field as the
  "rendering order within its section". The code never consults it: the query is a
  filter over the map's values, which come in registration order, and no renderer sorts.
  With \<open>A\<close> (content, order 2) registered before \<open>B\<close> (content, order 1) the query
  returns \<open>[A, B]\<close>, not \<open>[B, A]\<close>.
\<close>

theorem getPluginsBySection_ignores_order:
  "order' pluginA = Some 2 \<and> order' pluginB = Some 1
   \<and> registerAll [pluginA, pluginB] emptyRegistry = Inr \<lparr>plugins = [(''A'', pluginA), (''B'', pluginB)]\<rparr>
   \<and> getPluginsBySection ''content'' \<lparr>plugins = [(''A'', pluginA), (''B'', pluginB)]\<rparr> = [pluginA, pluginB]
   \<and> [pluginA, pluginB] \<noteq> [pluginB, pluginA]"
  by (simp add: register_def emptyRegistry_def sections_def getPluginsBySection_def Map_values_def
        pluginA_def pluginB_def mkPlugin_def)

section \<open>State store: save, load, clear\<close>

lemma saveState_stored:
  "stringify J s = Inr t \<Longrightarrow>
   saveState J pid s w = (Inr (), w\<lparr>localStorage := (localStorage w)(stateKey pid \<mapsto> storedText t)\<rparr>)"
  by (simp add: saveState_def tryCatch_def andThen_def jsonStringify_def setItem_def)

lemma saveState_swallows:
  "stringify J s = Inl e \<Longrightarrow>
   saveState J pid s w =
     (Inr (), w\<lparr>console := console w @ [ConsoleError (''Failed to save state for plugin '' @ pid @ '':'') e]\<rparr>)"
  by (simp add: saveState_def tryCatch_def andThen_def jsonStringify_def consoleError_def)

lemma loadState_eq:
  "loadState J pid w =
     (case localStorage w (stateKey pid) of
        None \<Rightarrow> (Inr JNull, w)
      | Some t \<Rightarrow>
          if t = [] then (Inr JNull, w)
          else (case parse J t of
                  Inr v \<Rightarrow> (Inr v, w)
                | Inl e \<Rightarrow> (Inr JNull, w\<lparr>console := console w @ [ConsoleError (''Failed to load state for plugin '' @ pid @ '':'') e]\<rparr>)))"
  by (auto simp: loadState_def tryCatch_def andThen_def getItem_def truthy_def jsonParse_def
        returns_def consoleError_def split: option.splits sum.splits)

lemma clearState_eq:
  "clearState pid w = (Inr (), w\<lparr>localStorage := (localStorage w)(stateKey pid := None)\<rparr>)"
  by (simp add: clearState_def removeItem_def)

lemma serializableD:
  "serializable J s \<Longrightarrow> \<exists>t. stringify J s = Inr (Some t) \<and> t \<noteq> [] \<and> parse J t = Inr s"
  by (auto simp: serializable_def split: sum.splits option.splits)

lemma saveState_frame:
  "k \<noteq> stateKey pid \<Longrightarrow> localStorage (snd (saveState J pid v w)) k = localStorage w k"
  by (cases "stringify J v") (simp_all add: saveState_swallows saveState_stored)

lemma saveState_loadState:
  "serializable J s \<Longrightarrow> fst (loadState J pid (snd (saveState J pid s w))) = Inr s"
proof -
  assume "serializable J s"
  from serializableD [OF this] obtain t
    where t: "stringify J s = Inr (Some t)" "t \<noteq> []" "parse J t = Inr s" by blast
  show ?thesis using t(2,3) by (simp add: saveState_stored [OF t(1)] storedText_def loadState_eq)
qed

lemma atomJSON_five: "serializable atomJSON (JNum 5)"
  by (simp add: serializable_def atomJSON_def atomStringify_def atomParse_def intToString_def
        digitChar_def isDecimal_def parseDecimal_def digitValue_def)

lemma parse5: "parse atomJSON ''5'' = Inr (JNum 5)"
  by (simp add: atomJSON_def atomParse_def isDecimal_def parseDecimal_def digitValue_def)

lemma stringify5: "stringify atomJSON (JNum 5) = Inr (Some ''5'')"
  by (simp add: atomJSON_def atomStringify_def intToString_def digitChar_def)



text \<open>
  Claim C9. For every plugin id and every state value that \<open>JSON\<close> serialises and
  reads back, \<open>saveState\<close> followed by \<open>loadState\<close> returns that value, and
  \<open>clearState\<close> followed by \<open>loadState\<close> returns \<open>null\<close>, the absent marker.
\<close>

theorem save_load_clear_roundtrip:
  assumes "serializable J s"
  shows "fst (saveState J pid s w) = Inr ()
         \<and> fst (loadState J pid (snd (saveState J pid s w))) = Inr s
         \<and> fst (loadState J pid (snd (clearState pid w))) = Inr JNull"
proof -
  from serializableD [OF assms] obtain t where "stringify J s = Inr (Some t)" by blast
  then have "fst (saveState J pid s w) = Inr ()" by (simp add: saveState_stored)
  moreover have "fst (loadState J pid (snd (clearState pid w))) = Inr JNull"
    by (simp add: clearState_eq loadState_eq)
  ultimately show ?thesis using saveState_loadState [OF assms] by simp
qed

theorem save_load_clear_roundtrip_witness:
  "serializable atomJSON (JNum 5)
   \<and> fst (loadState atomJSON ''counter'' (snd (saveState atomJSON ''counter'' (JNum 5) emptyWorld))) = Inr (JNum 5)
   \<and> fst (loadState atomJSON ''counter'' (snd (clearState ''counter'' emptyWorld))) = Inr JNull"
  using save_load_clear_roundtrip [OF atomJSON_five, of "''counter''" emptyWorld] atomJSON_five
  by simp

text \<open>
  Claim C8 says that a serialisation failure during \<open>saveState\<close> is reported to the
  caller, and so does the method's own documentation (\<open>@throws Error if ... state
  serialization fails\<close>). The code catches the error and only logs it: saving a BigInt,
  which \<open>JSON.stringify\<close> rejects, returns normally and stores nothing.
\<close>

theorem saveState_swallows_serialization_failure:
  "saveState atomJSON ''counter'' (JBigInt 10) emptyWorld =
     (Inr (), emptyWorld\<lparr>console :=
        [ConsoleError ''Failed to save state for plugin counter:''
           (Error ''Do not know how to serialize a BigInt'')]\<rparr>)"
  by (simp add: saveState_def tryCatch_def andThen_def jsonStringify_def consoleError_def
        atomJSON_def atomStringify_def emptyWorld_def)

section \<open>Lifecycle manager: rendering a zone\<close>


















section \<open>Lifecycle manager: restoring and saving state\<close>

lemma restoreState_eq:
  "restoreState code d J p w =
     (case localStorage w (managerKey (id' p)) of
        None \<Rightarrow> (Inr (), w)
      | Some t \<Rightarrow>
          if t = [] then (Inr (), w)
          else (case parse J t of
                  Inl e \<Rightarrow> (Inl e, w)
                | Inr v \<Rightarrow> publish code d (id' p @ '':restore'') v w))"
  by (auto simp: restoreState_def andThen_def getItem_def truthy_def jsonParse_def returns_def
        split: option.splits sum.splits)

lemma zoneP: "getPluginsBySection ''content'' registryP = [pluginP]"
  by (simp add: getPluginsBySection_def Map_values_def registryP_def pluginP_def mkPlugin_def)

lemma idP: "id' pluginP = ''P''" by (simp add: pluginP_def mkPlugin_def)

lemma loadP: "loadPlugins exampleCode 0 atomJSON ''content'' registryP initialManagerState worldP
   = (\<lparr>plugins' = [pluginP], error' = None\<rparr>, worldP\<lparr>calls := [(okHandler, JNum 5)]\<rparr>)"
  by (simp add: loadPlugins_def zoneP Let_def andThen_def returns_def restoreState_eq idP
        worldP_def managerKey_def parse5 publishWith_def deliver_def tryCatch_def callHandler_def
        exampleCode_simps initialManagerState_def)

lemma onStateChange_frame:
  "k \<noteq> managerKey (toString (getProp d ''pluginId'')) \<Longrightarrow> snd (onStateChange J d store) k = store k"
  by (simp add: onStateChange_def Let_def split: sum.splits)

lemma onStateChange_saves:
  assumes "serializable J s"
  shows "\<exists>t. t \<noteq> [] \<and> parse J t = Inr s
           \<and> onStateChange J (JObj [(''pluginId'', JStr pid), (''state'', s)]) store
               = (None, store(managerKey pid \<mapsto> t))"
proof -
  from serializableD [OF assms] obtain t
    where t: "stringify J s = Inr (Some t)" "t \<noteq> []" "parse J t = Inr s" by blast
  then show ?thesis by (intro exI [of _ t]) (simp add: onStateChange_def getProp_def storedText_def)
qed

lemma exec_fromStore:
  "exec nested (fromStore f) w =
     (case fst (f (localStorage w)) of None \<Rightarrow> Inr () | Some e \<Rightarrow> Inl e,
      w\<lparr>localStorage := snd (f (localStorage w))\<rparr>)"
  by (cases "fst (f (localStorage w))") (simp_all add: fromStore_def andThen_def returns_def throw_def)

text \<open>
  Claim C6 says that, after restoring a descriptor's saved state, the manager invokes the
  descriptor's \<open>onMount\<close> hook, and the lifecycle interface documents \<open>onMount\<close> as
  "called when a plugin is mounted/initialized". The manager's effect restores the state
  and subscribes to \<open>plugin:stateChange\<close>, and that is all: for a zone whose only
  plugin supplies \<open>onMount\<close>, the one call made is the restore handler's, the hook is not
  called, and the mark it would leave in the store is absent.
\<close>

theorem onMount_never_invoked:
  "lifecycle pluginP = Some \<lparr>onMount = Some mountHook, onUnmount = None, onUpdate = None\<rparr>
   \<and> getPluginsBySection ''content'' registryP = [pluginP]
   \<and> fst (managerEffect exampleCode 0 atomJSON ''content'' registryP managerClosure initialManagerState worldP)
       = Inr (\<lparr>plugins' = [pluginP], error' = None\<rparr>, Unsubscribe ''plugin:stateChange'' managerClosure)
   \<and> calls (snd (managerEffect exampleCode 0 atomJSON ''content'' registryP managerClosure initialManagerState worldP))
       = [(okHandler, JNum 5)]
   \<and> callsOf mountHook (snd (managerEffect exampleCode 0 atomJSON ''content'' registryP managerClosure initialManagerState worldP))
       = []
   \<and> localStorage (snd (managerEffect exampleCode 0 atomJSON ''content'' registryP managerClosure initialManagerState worldP))
        ''mounted'' = None"
proof -
  have "managerEffect exampleCode 0 atomJSON ''content'' registryP managerClosure initialManagerState worldP
     = (Inr (\<lparr>plugins' = [pluginP], error' = None\<rparr>, Unsubscribe ''plugin:stateChange'' managerClosure),
        snd (subscribe ''plugin:stateChange'' managerClosure (worldP\<lparr>calls := [(okHandler, JNum 5)]\<rparr>)))"
    by (simp add: managerEffect_def loadP andThen_def returns_def subscribe_def Let_def)
  moreover have "lifecycle pluginP = Some \<lparr>onMount = Some mountHook, onUnmount = None, onUpdate = None\<rparr>"
    by (simp add: pluginP_def mkPlugin_def)
  ultimately show ?thesis using zoneP
    by (simp add: subscribe_calls callsOf_def)
       (simp add: subscribe_def worldP_def handler_ids)
qed

text \<open>
  Claim C7, as the code has it. The state store persists under \<open>plugin_<id>_state\<close>:
  \<open>saveState\<close> and \<open>clearState\<close> change no other key, and \<open>loadState\<close> finds
  what \<open>saveState\<close> stored. The manager persists under \<open>plugin_state_<id>\<close>: its
  \<open>plugin:stateChange\<close> handler changes no other key, and its restore finds what that
  handler stored. Within each of the two, different ids give different keys.
\<close>

theorem persistence_keys:
  assumes "serializable J s" and "id' p = pid"
  shows "(\<forall>k. k \<noteq> ''plugin_'' @ pid @ ''_state'' \<longrightarrow>
            localStorage (snd (saveState J pid v w)) k = localStorage w k
            \<and> localStorage (snd (clearState pid w)) k = localStorage w k)
         \<and> fst (loadState J pid (snd (saveState J pid s w))) = Inr s
         \<and> (\<forall>a b. ''plugin_'' @ a @ ''_state'' = ''plugin_'' @ b @ ''_state'' \<longrightarrow> a = b)
         \<and> (\<forall>k. k \<noteq> ''plugin_state_'' @ toString (getProp d ''pluginId'') \<longrightarrow>
               snd (onStateChange J d store) k = store k)
         \<and> restoreState code depth J p
             (w\<lparr>localStorage := snd (onStateChange J (JObj [(''pluginId'', JStr pid), (''state'', s)]) (localStorage w))\<rparr>)
           = publish code depth (pid @ '':restore'') s
             (w\<lparr>localStorage := snd (onStateChange J (JObj [(''pluginId'', JStr pid), (''state'', s)]) (localStorage w))\<rparr>)
         \<and> (\<forall>a b. ''plugin_state_'' @ a = ''plugin_state_'' @ b \<longrightarrow> a = b)"
proof -
  have store_frame: "\<forall>k. k \<noteq> ''plugin_'' @ pid @ ''_state'' \<longrightarrow>
            localStorage (snd (saveState J pid v w)) k = localStorage w k
            \<and> localStorage (snd (clearState pid w)) k = localStorage w k"
    using saveState_frame [of _ pid J v w] by (simp add: clearState_eq stateKey_def)
  have manager_frame: "\<forall>k. k \<noteq> ''plugin_state_'' @ toString (getProp d ''pluginId'') \<longrightarrow>
               snd (onStateChange J d store) k = store k"
    using onStateChange_frame [of _ d J store] by (simp add: managerKey_def)
  from onStateChange_saves [OF assms(1), of pid "localStorage w"] obtain t where
    t: "t \<noteq> []" "parse J t = Inr s"
       "onStateChange J (JObj [(''pluginId'', JStr pid), (''state'', s)]) (localStorage w)
          = (None, (localStorage w)(managerKey pid \<mapsto> t))"
    by blast
  have manager_roundtrip: "restoreState code depth J p
             (w\<lparr>localStorage := snd (onStateChange J (JObj [(''pluginId'', JStr pid), (''state'', s)]) (localStorage w))\<rparr>)
           = publish code depth (pid @ '':restore'') s
             (w\<lparr>localStorage := snd (onStateChange J (JObj [(''pluginId'', JStr pid), (''state'', s)]) (localStorage w))\<rparr>)"
    using t(1,2) assms(2) by (simp add: t(3) restoreState_eq)
  from store_frame manager_frame manager_roundtrip saveState_loadState [OF assms(1)]
  show ?thesis by simp
qed

theorem persistence_keys_witness:
  "serializable atomJSON (JNum 5) \<and> id' pluginP = ''P''
   \<and> localStorage (snd (saveState atomJSON ''P'' (JNum 5) emptyWorld)) ''plugin_state_P'' = None
   \<and> fst (loadState atomJSON ''P'' (snd (saveState atomJSON ''P'' (JNum 5) emptyWorld))) = Inr (JNum 5)
   \<and> snd (onStateChange atomJSON counterChange Map.empty) ''plugin_counter_state'' = None
   \<and> restoreState exampleCode 0 atomJSON pluginP
        (emptyWorld\<lparr>localStorage := snd (onStateChange atomJSON (JObj [(''pluginId'', JStr ''P''), (''state'', JNum 5)]) Map.empty)\<rparr>)
      = publish exampleCode 0 ''P:restore'' (JNum 5)
        (emptyWorld\<lparr>localStorage := snd (onStateChange atomJSON (JObj [(''pluginId'', JStr ''P''), (''state'', JNum 5)]) Map.empty)\<rparr>)"
proof -
  have k1: "''plugin_state_P'' \<noteq> ''plugin_'' @ ''P'' @ ''_state''" by simp
  have k2: "''plugin_counter_state'' \<noteq> ''plugin_state_'' @ toString (getProp counterChange ''pluginId'')"
    by (simp add: counterChange_def getProp_def)
  from persistence_keys [OF atomJSON_five idP, of "JNum 5" emptyWorld counterChange Map.empty exampleCode 0] k1 k2
  have "localStorage (snd (saveState atomJSON ''P'' (JNum 5) emptyWorld)) ''plugin_state_P'' = localStorage emptyWorld ''plugin_state_P''"
    and "fst (loadState atomJSON ''P'' (snd (saveState atomJSON ''P'' (JNum 5) emptyWorld))) = Inr (JNum 5)"
    and "snd (onStateChange atomJSON counterChange Map.empty) ''plugin_counter_state'' = Map.empty ''plugin_counter_state''"
    and "restoreState exampleCode 0 atomJSON pluginP
        (emptyWorld\<lparr>localStorage := snd (onStateChange atomJSON (JObj [(''pluginId'', JStr ''P''), (''state'', JNum 5)]) (localStorage emptyWorld))\<rparr>)
      = publish exampleCode 0 (''P'' @ '':restore'') (JNum 5)
        (emptyWorld\<lparr>localStorage := snd (onStateChange atomJSON (JObj [(''pluginId'', JStr ''P''), (''state'', JNum 5)]) (localStorage emptyWorld))\<rparr>)"
    by blast+
  then show ?thesis using atomJSON_five idP by (simp add: emptyWorld_def)
qed

text \<open>
  The two components do not share a key: a state the manager saved for \<open>counter\<close> is
  not found by the store's \<open>loadState\<close>. Across the two, keys of different plugins
  can even coincide.
\<close>

theorem manager_and_store_keys_differ_counterexample:
  "localStorage worldAfterChange ''plugin_state_counter'' = Some ''5''
   \<and> stateKey ''counter'' = ''plugin_counter_state''
   \<and> localStorage worldAfterChange (stateKey ''counter'') = None
   \<and> fst (loadState atomJSON ''counter'' worldAfterChange) = Inr JNull
   \<and> stateKey ''state_'' = managerKey ''_state''"
proof -
  have eff: "snd (managerEffect exampleCode 0 atomJSON ''content'' emptyRegistry managerClosure
                    initialManagerState emptyWorld)
     = emptyWorld\<lparr>events := [''plugin:stateChange'' \<mapsto> 0],
                  arrays := (\<lambda>a. [])(0 := [managerClosure]), nextArray := 1\<rparr>"
    by (simp add: managerEffect_def loadPlugins_def getPluginsBySection_def Map_values_def
          emptyRegistry_def andThen_def returns_def subscribe_def emptyWorld_def)
  have run: "onStateChange atomJSON counterChange Map.empty = (None, [''plugin_state_counter'' \<mapsto> ''5''])"
    by (simp add: onStateChange_def counterChange_def getProp_def stringify5 storedText_def managerKey_def)
  have w: "localStorage worldAfterChange = [''plugin_state_counter'' \<mapsto> ''5'']"
    unfolding worldAfterChange_def eff
    by (simp add: publishWith_def deliver_def callHandler_def tryCatch_def exampleCode_simps
          stateChangeHandler_def exec_fromStore emptyWorld_def run andThen_def returns_def
          consoleError_def)
  show ?thesis
    by (simp add: w loadState_eq) (simp add: stateKey_def managerKey_def)
qed

end
